theory Spec2Isabelle
  imports Main
begin

section \<open>The operating-system layer\<close>

text \<open>
  The program is a Go command-line tool that keeps named snapshots of one JSON settings
  file. Its core (\<^verbatim>\<open>internal/config/manager.go\<close>, \<^verbatim>\<open>internal/validation\<close>,
  \<^verbatim>\<open>internal/storage/storage.go\<close>) talks to the file system through the Go standard
  library. The library is not part of the repository, so this section fixes a small model
  of the calls the core makes: \<^verbatim>\<open>os.Stat\<close>, \<^verbatim>\<open>os.ReadFile\<close>, \<^verbatim>\<open>os.WriteFile\<close>,
  \<^verbatim>\<open>os.Remove\<close>, \<^verbatim>\<open>os.Rename\<close>, \<^verbatim>\<open>os.MkdirAll\<close> and \<^verbatim>\<open>os.UserHomeDir\<close>.

  A path is in one of three states: nothing is there, a regular file with its bytes is
  there, or the path cannot be reached (a parent directory denies search permission), in
  which case every call on it fails with a permission error.

  Calls that change the disk can also fail for reasons the path's state does not show
  (a full disk, a read-only mount). These are scripted: the world carries a list of
  faults, and every mutating call takes the next entry (no entry left means no fault).
  \<^verbatim>\<open>os.WriteFile\<close> opens with \<^verbatim>\<open>O_WRONLY|O_CREATE|O_TRUNC\<close> and then writes, so it can fail
  before touching the file (\<open>Refuse\<close>) or after the truncation with only a prefix of the
  data written (\<open>Cut k\<close>); its documentation says as much: ``a failure mid-operation can
  leave the file in a partially written state''.
\<close>

type_synonym path = string
type_synonym bytes = string

datatype oserr = ErrNotExist | ErrPermission | ErrNoSpace | ErrIO

datatype node = Missing | File bytes | Unreachable

datatype fault = NoFault | Refuse | Cut nat

record world =
  files :: "path \<Rightarrow> node"
  faults :: "fault list"
  home :: "path option"

definition next_fault :: "world \<Rightarrow> fault \<times> world" where
  "next_fault w =
     (case faults w of
        [] \<Rightarrow> (NoFault, w)
      | f # fs \<Rightarrow> (f, w\<lparr>faults := fs\<rparr>))"

definition put_file :: "path \<Rightarrow> node \<Rightarrow> world \<Rightarrow> world" where
  "put_file p n w = w\<lparr>files := (files w)(p := n)\<rparr>"

text \<open>\<^verbatim>\<open>os.IsNotExist(err)\<close>; \<open>None\<close> is Go's \<^verbatim>\<open>nil\<close> error.\<close>

definition os_IsNotExist :: "oserr option \<Rightarrow> bool" where
  "os_IsNotExist err = (err = Some ErrNotExist)"

definition os_Stat :: "path \<Rightarrow> world \<Rightarrow> oserr option" where
  "os_Stat p w =
     (case files w p of
        Missing \<Rightarrow> Some ErrNotExist
      | Unreachable \<Rightarrow> Some ErrPermission
      | File _ \<Rightarrow> None)"

definition os_ReadFile :: "path \<Rightarrow> world \<Rightarrow> oserr + bytes" where
  "os_ReadFile p w =
     (case files w p of
        Missing \<Rightarrow> Inl ErrNotExist
      | Unreachable \<Rightarrow> Inl ErrPermission
      | File b \<Rightarrow> Inr b)"

definition os_WriteFile :: "path \<Rightarrow> bytes \<Rightarrow> world \<Rightarrow> oserr option \<times> world" where
  "os_WriteFile p b w =
     (case files w p of
        Unreachable \<Rightarrow> (Some ErrPermission, w)
      | _ \<Rightarrow>
         (case next_fault w of
            (NoFault, w') \<Rightarrow> (None, put_file p (File b) w')
          | (Refuse, w') \<Rightarrow> (Some ErrPermission, w')
          | (Cut k, w') \<Rightarrow> (Some ErrNoSpace, put_file p (File (take k b)) w')))"

definition os_Remove :: "path \<Rightarrow> world \<Rightarrow> oserr option \<times> world" where
  "os_Remove p w =
     (case files w p of
        Missing \<Rightarrow> (Some ErrNotExist, w)
      | Unreachable \<Rightarrow> (Some ErrPermission, w)
      | File _ \<Rightarrow>
         (case next_fault w of
            (NoFault, w') \<Rightarrow> (None, put_file p Missing w')
          | (Refuse, w') \<Rightarrow> (Some ErrPermission, w')
          | (Cut _, w') \<Rightarrow> (Some ErrIO, w')))"

definition os_Rename :: "path \<Rightarrow> path \<Rightarrow> world \<Rightarrow> oserr option \<times> world" where
  "os_Rename old new w =
     (case files w old of
        Missing \<Rightarrow> (Some ErrNotExist, w)
      | Unreachable \<Rightarrow> (Some ErrPermission, w)
      | File b \<Rightarrow>
         (if files w new = Unreachable then (Some ErrPermission, w)
          else
            (case next_fault w of
               (NoFault, w') \<Rightarrow> (None, put_file new (File b) (put_file old Missing w'))
             | (Refuse, w') \<Rightarrow> (Some ErrPermission, w')
             | (Cut _, w') \<Rightarrow> (Some ErrIO, w'))))"

text \<open>Directories are not tracked: \<^verbatim>\<open>os.MkdirAll\<close> only succeeds or fails.\<close>

definition os_MkdirAll :: "path \<Rightarrow> world \<Rightarrow> oserr option \<times> world" where
  "os_MkdirAll dir w =
     (case next_fault w of
        (NoFault, w') \<Rightarrow> (None, w')
      | (Refuse, w') \<Rightarrow> (Some ErrPermission, w')
      | (Cut _, w') \<Rightarrow> (Some ErrNoSpace, w'))"

text \<open>
  \<^verbatim>\<open>filepath.Join\<close> and \<^verbatim>\<open>filepath.Dir\<close> on paths that are already clean (no doubled
  separators, no \<^verbatim>\<open>.\<close> or \<^verbatim>\<open>..\<close> elements), which is all the program builds.
\<close>

definition filepath_Join :: "path \<Rightarrow> path \<Rightarrow> path" where
  "filepath_Join a b = a @ ''/'' @ b"

definition filepath_Dir :: "path \<Rightarrow> path" where
  "filepath_Dir p =
     (let d = rev (drop 1 (dropWhile (\<lambda>c. c \<noteq> CHR ''/'') (rev p)))
      in if d = [] then (if CHR ''/'' \<in> set p then ''/'' else ''.'') else d)"

section \<open>encoding/json\<close>

text \<open>
  \<^verbatim>\<open>json.Unmarshal\<close> is library code as well. The decoder's grammar is a parameter
  \<open>parse\<close> of the development: it maps a byte sequence to the JSON value it denotes, or to
  \<open>None\<close> when the bytes are not JSON. What \<^verbatim>\<open>Unmarshal\<close> does with the parsed value
  depends on the Go type of its target and is fixed here from the package's
  documentation:
  \<^item> into \<^verbatim>\<open>interface{}\<close>: any JSON value is accepted;
  \<^item> into \<^verbatim>\<open>map[string]interface{}\<close>: an object allocates the map; \<^verbatim>\<open>null\<close> is a no-op
    that leaves the map \<^verbatim>\<open>nil\<close> and reports no error; any other value is an
    \<^verbatim>\<open>UnmarshalTypeError\<close>.
\<close>

datatype json =
    JNull
  | JBool bool
  | JNumber bytes
  | JString bytes
  | JArray "json list"
  | JObject "(bytes \<times> json) list"

datatype jsonerr = SyntaxError | UnmarshalTypeError

type_synonym decoder = "bytes \<Rightarrow> json option"

definition unmarshal_any :: "decoder \<Rightarrow> bytes \<Rightarrow> jsonerr + json" where
  "unmarshal_any parse data =
     (case parse data of
        None \<Rightarrow> Inl SyntaxError
      | Some v \<Rightarrow> Inr v)"

text \<open>The result \<open>Inr None\<close> is the \<^verbatim>\<open>nil\<close> map.\<close>

definition unmarshal_map :: "decoder \<Rightarrow> bytes \<Rightarrow> jsonerr + (bytes \<times> json) list option" where
  "unmarshal_map parse data =
     (case parse data of
        None \<Rightarrow> Inl SyntaxError
      | Some JNull \<Rightarrow> Inr None
      | Some (JObject kvs) \<Rightarrow> Inr (Some kvs)
      | Some _ \<Rightarrow> Inl UnmarshalTypeError)"

section \<open>Errors\<close>

text \<open>
  Go errors in this program are messages built with \<^verbatim>\<open>fmt.Errorf\<close>, most of them wrapping
  the error of the failed step with \<^verbatim>\<open>%w\<close>. Each \<^verbatim>\<open>fmt.Errorf\<close> site is a constructor,
  named after its message, and carries what it wraps.
\<close>

datatype error =
    InvalidJSONFormat jsonerr
  | FailedToParseAsObject jsonerr
  | SettingsIsNull
  | FailedToReadFile oserr
  | FailedToGetHomeDir
  | FailedToCreateDirectory oserr
  | FailedToWriteTemporaryFile oserr
  | FailedToMoveTemporaryFile oserr
  | SourceFileDoesNotExist path
  | FailedToReadSourceFile oserr
  | FailedToWriteDestinationFile oserr
  | FailedToWriteDestination error
  | ConfigNameEmpty
  | InvalidConfigurationFile error
  | NameAlreadyExists string
  | FailedToCopyConfigFile error
  | FailedToSaveConfigMetadata error
  | ConfigNotFound string
  | ConfigurationFileIsInvalid error
  | FailedToCreateBackup error
  | FailedToApplyConfiguration error
  | FailedToRemoveConfigFile oserr
  | FailedToUpdateConfigMetadata error
  | FailedToReadConfigMetadata oserr
  | FailedToParseConfigMetadata jsonerr
  | FailedToMarshalConfigMetadata
  | FailedToWriteConfigMetadata oserr
  | FailedToCreateConfigDirectory oserr
  | FailedToCreateConfigsDirectory oserr
  | FailedToLoadConfigurations error

section \<open>Package validation\<close>

definition ValidateJSON :: "decoder \<Rightarrow> bytes \<Rightarrow> error option" where
  "ValidateJSON parse data =
     (case unmarshal_any parse data of
        Inl e \<Rightarrow> Some (InvalidJSONFormat e)
      | Inr _ \<Rightarrow> None)"

definition ValidateClaudeSettings :: "decoder \<Rightarrow> bytes \<Rightarrow> error option" where
  "ValidateClaudeSettings parse data =
     (case ValidateJSON parse data of
        Some err \<Rightarrow> Some err
      | None \<Rightarrow>
         (case unmarshal_map parse data of
            Inl e \<Rightarrow> Some (FailedToParseAsObject e)
          | Inr settings \<Rightarrow>
             (if settings = None then Some SettingsIsNull else None)))"

definition ValidateClaudeSettingsFile :: "decoder \<Rightarrow> path \<Rightarrow> world \<Rightarrow> error option" where
  "ValidateClaudeSettingsFile parse filePath w =
     (case os_ReadFile filePath w of
        Inl e \<Rightarrow> Some (FailedToReadFile e)
      | Inr data \<Rightarrow> ValidateClaudeSettings parse data)"

section \<open>Package storage\<close>

definition EnsureDir :: "path \<Rightarrow> world \<Rightarrow> error option \<times> world" where
  "EnsureDir dir w =
     (case os_MkdirAll dir w of
        (Some e, w') \<Rightarrow> (Some (FailedToCreateDirectory e), w')
      | (None, w') \<Rightarrow> (None, w'))"

definition FileExists :: "path \<Rightarrow> world \<Rightarrow> bool" where
  "FileExists filePath w = (\<not> os_IsNotExist (os_Stat filePath w))"

definition AtomicWrite :: "path \<Rightarrow> bytes \<Rightarrow> world \<Rightarrow> error option \<times> world" where
  "AtomicWrite filePath data w =
     (case EnsureDir (filepath_Dir filePath) w of
        (Some err, w1) \<Rightarrow> (Some err, w1)
      | (None, w1) \<Rightarrow>
         (let tempFile = filePath @ ''.tmp'' in
          case os_WriteFile tempFile data w1 of
            (Some e, w2) \<Rightarrow> (Some (FailedToWriteTemporaryFile e), w2)
          | (None, w2) \<Rightarrow>
             (case os_Rename tempFile filePath w2 of
                (Some e, w3) \<Rightarrow>
                  (Some (FailedToMoveTemporaryFile e), snd (os_Remove tempFile w3))
              | (None, w3) \<Rightarrow> (None, w3))))"

definition SafeCopy :: "path \<Rightarrow> path \<Rightarrow> world \<Rightarrow> error option \<times> world" where
  "SafeCopy src dst w =
     (if \<not> FileExists src w then (Some (SourceFileDoesNotExist src), w)
      else
        (case os_ReadFile src w of
           Inl e \<Rightarrow> (Some (FailedToReadSourceFile e), w)
         | Inr data \<Rightarrow>
            (case AtomicWrite dst data w of
               (Some err, w') \<Rightarrow> (Some (FailedToWriteDestination err), w')
             | (None, w') \<Rightarrow> (None, w'))))"

section \<open>Package config\<close>

text \<open>
  A \<^verbatim>\<open>time.Time\<close> is kept as an instant (nanoseconds since the epoch). The JSON encoding of
  the metadata document (\<^verbatim>\<open>json.MarshalIndent\<close> of \<^verbatim>\<open>[]Config\<close>, and \<^verbatim>\<open>json.Unmarshal\<close> into
  it) is library code driven by the struct tags, so it is a parameter too. \<^verbatim>\<open>Unmarshal\<close>
  into a slice can fail after it has already changed the slice, hence it returns the
  slice it leaves behind together with the error.
\<close>

record Config =
  ID :: string
  Name :: string
  Description :: string
  CreatedAt :: int
  FilePath :: path

record Manager =
  configDir :: path
  configs :: "Config list"

record encoding_json =
  decode :: decoder
  marshal :: "Config list \<Rightarrow> bytes option"
  unmarshal :: "bytes \<Rightarrow> Config list \<Rightarrow> jsonerr option \<times> Config list"

definition GetClaudeDir :: "world \<Rightarrow> error + path" where
  "GetClaudeDir w =
     (case home w of
        None \<Rightarrow> Inl FailedToGetHomeDir
      | Some homeDir \<Rightarrow> Inr (filepath_Join homeDir ''.claude''))"

definition GetClaudeSettingsPath :: "world \<Rightarrow> error + path" where
  "GetClaudeSettingsPath w =
     (case GetClaudeDir w of
        Inl err \<Rightarrow> Inl err
      | Inr claudeDir \<Rightarrow> Inr (filepath_Join claudeDir ''settings.json''))"

definition metadataPath :: "Manager \<Rightarrow> path" where
  "metadataPath m = filepath_Join (configDir m) ''config.json''"

definition copyFile :: "path \<Rightarrow> path \<Rightarrow> world \<Rightarrow> error option \<times> world" where
  "copyFile src dst w =
     (case os_ReadFile src w of
        Inl e \<Rightarrow> (Some (FailedToReadSourceFile e), w)
      | Inr sourceData \<Rightarrow>
         (case os_WriteFile dst sourceData w of
            (Some e, w') \<Rightarrow> (Some (FailedToWriteDestinationFile e), w')
          | (None, w') \<Rightarrow> (None, w')))"

definition saveConfigs :: "encoding_json \<Rightarrow> Manager \<Rightarrow> world \<Rightarrow> error option \<times> world" where
  "saveConfigs J m w =
     (case marshal J (configs m) of
        None \<Rightarrow> (Some FailedToMarshalConfigMetadata, w)
      | Some data \<Rightarrow>
         (case os_WriteFile (metadataPath m) data w of
            (Some e, w') \<Rightarrow> (Some (FailedToWriteConfigMetadata e), w')
          | (None, w') \<Rightarrow> (None, w')))"

definition loadConfigs :: "encoding_json \<Rightarrow> Manager \<Rightarrow> world \<Rightarrow> error option \<times> Manager" where
  "loadConfigs J m w =
     (case os_ReadFile (metadataPath m) w of
        Inl e \<Rightarrow>
          (if os_IsNotExist (Some e) then (None, m\<lparr>configs := []\<rparr>)
           else (Some (FailedToReadConfigMetadata e), m))
      | Inr data \<Rightarrow>
         (case unmarshal J data (configs m) of
            (Some e, cs) \<Rightarrow> (Some (FailedToParseConfigMetadata e), m\<lparr>configs := cs\<rparr>)
          | (None, cs) \<Rightarrow> (None, m\<lparr>configs := cs\<rparr>)))"


text \<open>The loop of \<^verbatim>\<open>AddConfig\<close> that looks for a record with the given name.\<close>

fun name_exists :: "string \<Rightarrow> Config list \<Rightarrow> bool" where
  "name_exists name [] = False"
| "name_exists name (config # rest) =
     (if Name config = name then True else name_exists name rest)"

text \<open>
  \<^verbatim>\<open>AddConfig\<close>. The fresh identity \<open>uuid\<close> (\<^verbatim>\<open>uuid.New().String()\<close>, the source's \<^verbatim>\<open>id\<close>) and the clock reading
  (\<^verbatim>\<open>time.Now()\<close>) are inputs. The error of the clean-up \<^verbatim>\<open>os.Remove\<close> is dropped, as in
  the source.
\<close>

definition AddConfig ::
  "encoding_json \<Rightarrow> string \<Rightarrow> int \<Rightarrow> path \<Rightarrow> string \<Rightarrow> string \<Rightarrow> Manager \<Rightarrow> world
     \<Rightarrow> (error + Config) \<times> Manager \<times> world" where
  "AddConfig J uuid now tempFile name description m w =
     (if name = [] then (Inl ConfigNameEmpty, m, w)
      else
        (case ValidateClaudeSettingsFile (decode J) tempFile w of
           Some err \<Rightarrow> (Inl (InvalidConfigurationFile err), m, w)
         | None \<Rightarrow>
            (if name_exists name (configs m) then (Inl (NameAlreadyExists name), m, w)
             else
               (let config = \<lparr>ID = uuid, Name = name, Description = description,
                               CreatedAt = now,
                               FilePath = filepath_Join (filepath_Join (configDir m) ''configs'')
                                            (uuid @ ''.json'')\<rparr>
                in case copyFile tempFile (FilePath config) w of
                     (Some err, w1) \<Rightarrow> (Inl (FailedToCopyConfigFile err), m, w1)
                   | (None, w1) \<Rightarrow>
                      (let m1 = m\<lparr>configs := configs m @ [config]\<rparr>
                       in case saveConfigs J m1 w1 of
                            (Some err, w2) \<Rightarrow>
                              (Inl (FailedToSaveConfigMetadata err), m1,
                               snd (os_Remove (FilePath config) w2))
                          | (None, w2) \<Rightarrow> (Inr config, m1, w2))))))"

definition GetConfigs :: "Manager \<Rightarrow> Config list" where
  "GetConfigs m = configs m"

text \<open>The loop of \<^verbatim>\<open>GetConfig\<close>: the first record whose ID or name is the identifier.\<close>

fun find_config :: "string \<Rightarrow> Config list \<Rightarrow> Config option" where
  "find_config identifier [] = None"
| "find_config identifier (config # rest) =
     (if ID config = identifier \<or> Name config = identifier then Some config
      else find_config identifier rest)"

definition GetConfig :: "string \<Rightarrow> Manager \<Rightarrow> error + Config" where
  "GetConfig identifier m =
     (case find_config identifier (configs m) of
        Some config \<Rightarrow> Inr config
      | None \<Rightarrow> Inl (ConfigNotFound identifier))"

definition ApplyConfig :: "encoding_json \<Rightarrow> string \<Rightarrow> Manager \<Rightarrow> world \<Rightarrow> error option \<times> world" where
  "ApplyConfig J identifier m w =
     (case GetConfig identifier m of
        Inl err \<Rightarrow> (Some err, w)
      | Inr config \<Rightarrow>
         (case ValidateClaudeSettingsFile (decode J) (FilePath config) w of
            Some err \<Rightarrow> (Some (ConfigurationFileIsInvalid err), w)
          | None \<Rightarrow>
             (case GetClaudeSettingsPath w of
                Inl err \<Rightarrow> (Some err, w)
              | Inr settingsPath \<Rightarrow>
                 (let backupPath = settingsPath @ ''.backup'' in
                  case (if os_Stat settingsPath w = None
                        then copyFile settingsPath backupPath w else (None, w)) of
                    (Some err, w1) \<Rightarrow> (Some (FailedToCreateBackup err), w1)
                  | (None, w1) \<Rightarrow>
                     (case copyFile (FilePath config) settingsPath w1 of
                        (Some err, w2) \<Rightarrow>
                          (Some (FailedToApplyConfiguration err),
                           if os_Stat backupPath w2 = None
                           then snd (copyFile backupPath settingsPath w2) else w2)
                      | (None, w2) \<Rightarrow> (None, w2))))))"

text \<open>
  The loop of \<^verbatim>\<open>RemoveConfig\<close> that drops the first record with the given ID
  (\<^verbatim>\<open>append(m.configs[:i], m.configs[i+1:]...)\<close>, then \<^verbatim>\<open>break\<close>).
\<close>

fun remove_id :: "string \<Rightarrow> Config list \<Rightarrow> Config list" where
  "remove_id uuid [] = []"
| "remove_id uuid (c # rest) = (if ID c = uuid then rest else c # remove_id uuid rest)"

definition RemoveConfig ::
  "encoding_json \<Rightarrow> string \<Rightarrow> Manager \<Rightarrow> world \<Rightarrow> error option \<times> Manager \<times> world" where
  "RemoveConfig J identifier m w =
     (case GetConfig identifier m of
        Inl err \<Rightarrow> (Some err, m, w)
      | Inr config \<Rightarrow>
         (case os_Remove (FilePath config) w of
            (err, w1) \<Rightarrow>
              (if err \<noteq> None \<and> \<not> os_IsNotExist err
               then (Some (FailedToRemoveConfigFile (the err)), m, w1)
               else
                 (let m1 = m\<lparr>configs := remove_id (ID config) (configs m)\<rparr>
                  in case saveConfigs J m1 w1 of
                       (Some err, w2) \<Rightarrow> (Some (FailedToUpdateConfigMetadata err), m1, w2)
                     | (None, w2) \<Rightarrow> (None, m1, w2)))))"

definition ValidateConfig :: "encoding_json \<Rightarrow> string \<Rightarrow> Manager \<Rightarrow> world \<Rightarrow> error option" where
  "ValidateConfig J identifier m w =
     (case GetConfig identifier m of
        Inl err \<Rightarrow> Some err
      | Inr config \<Rightarrow> ValidateClaudeSettingsFile (decode J) (FilePath config) w)"

section \<open>Example inputs\<close>

text \<open>
  The examples below run the program on a small disk. \<open>sample_json\<close> stands in for
  \<^verbatim>\<open>encoding/json\<close> there: its decoder knows the documents the examples store, its metadata
  encoder lists the identities of the records, and its metadata decoder knows the two
  metadata documents the examples reload.
\<close>

definition sample_decoder :: decoder where
  "sample_decoder b =
     (if b = ''{}'' then Some (JObject [])
      else if b = ''[]'' then Some (JArray [])
      else if b = ''null'' then Some JNull
      else if b = ''42'' then Some (JNumber ''42'')
      else None)"

definition base_record :: Config where
  "base_record =
     \<lparr>ID = ''id1'', Name = ''base'', Description = [], CreatedAt = 0,
      FilePath = ''/home/u/.claude-switch/configs/id1.json''\<rparr>"

definition sample_marshal :: "Config list \<Rightarrow> bytes option" where
  "sample_marshal cs = Some (''['' @ concat (map (\<lambda>c. ID c @ '';'') cs) @ '']'')"

definition sample_unmarshal :: "bytes \<Rightarrow> Config list \<Rightarrow> jsonerr option \<times> Config list" where
  "sample_unmarshal data old =
     (if data = ''[]'' then (None, [])
      else if data = ''[id1;]'' then (None, [base_record])
      else (Some SyntaxError, old))"

definition sample_json :: encoding_json where
  "sample_json =
     \<lparr>decode = sample_decoder, marshal = sample_marshal, unmarshal = sample_unmarshal\<rparr>"

definition disk :: "(path \<times> bytes) list \<Rightarrow> path \<Rightarrow> node" where
  "disk entries p = (case map_of entries p of None \<Rightarrow> Missing | Some b \<Rightarrow> File b)"

definition empty_manager :: Manager where
  "empty_manager = \<lparr>configDir = ''/home/u/.claude-switch'', configs = []\<rparr>"

definition base_manager :: Manager where
  "base_manager = \<lparr>configDir = ''/home/u/.claude-switch'', configs = [base_record]\<rparr>"

text \<open>A disk with the stored file of \<open>base_record\<close> and a settings file.\<close>

definition settings_world :: world where
  "settings_world =
     \<lparr>files = disk [(''/home/u/.claude-switch/configs/id1.json'', ''{}''),
                     (''/home/u/.claude/settings.json'', ''[]'')],
      faults = [], home = Some ''/home/u''\<rparr>"

text \<open>The same disk before any settings file exists.\<close>

definition fresh_world :: world where
  "fresh_world =
     \<lparr>files = disk [(''/home/u/.claude-switch/configs/id1.json'', ''{}'')],
      faults = [], home = Some ''/home/u''\<rparr>"

text \<open>A disk on which one path cannot be reached.\<close>

definition locked_world :: world where
  "locked_world =
     \<lparr>files = (\<lambda>p. if p = ''/locked/a.json'' then Unreachable else Missing),
      faults = [], home = Some ''/home/u''\<rparr>"

text \<open>
  The editor's temporary file next to the stored file of \<open>base_record\<close>: once with a JSON
  object in it, once with bytes that are not JSON.
\<close>

definition edited_world :: world where
  "edited_world =
     \<lparr>files = disk [(''/home/u/.claude-switch/configs/id1.json'', ''{}''),
                     (''/tmp/claude-settings-7.json'', ''{}'')],
      faults = [], home = Some ''/home/u''\<rparr>"

definition broken_edit_world :: world where
  "broken_edit_world =
     \<lparr>files = disk [(''/home/u/.claude-switch/configs/id1.json'', ''{}''),
                     (''/tmp/claude-settings-7.json'', ''not json'')],
      faults = [], home = Some ''/home/u''\<rparr>"

text \<open>
  A first add on an empty registry, where the write of the stored file goes through and
  the write of the metadata document is refused.
\<close>

definition refused_save_world :: world where
  "refused_save_world =
     \<lparr>files = disk [(''/tmp/claude-settings-7.json'', ''{}'')],
      faults = [NoFault, Refuse], home = Some ''/home/u''\<rparr>"

text \<open>
  The disk of \<open>settings_world\<close> running full: the backup is written, the write of the
  target stops after one byte, and the write that restores the backup stores nothing.
\<close>

definition full_disk_world :: world where
  "full_disk_world =
     \<lparr>files = disk [(''/home/u/.claude-switch/configs/id1.json'', ''{}''),
                     (''/home/u/.claude/settings.json'', ''[]'')],
      faults = [NoFault, Cut 1, Cut 0], home = Some ''/home/u''\<rparr>"

text \<open>A registry in which the name of the first record is the identity of the second.\<close>

definition named_b :: Config where
  "named_b =
     \<lparr>ID = ''a'', Name = ''b'', Description = [], CreatedAt = 1,
      FilePath = ''/home/u/.claude-switch/configs/a.json''\<rparr>"

definition identified_b :: Config where
  "identified_b =
     \<lparr>ID = ''b'', Name = ''c'', Description = [], CreatedAt = 2,
      FilePath = ''/home/u/.claude-switch/configs/b.json''\<rparr>"

definition shadow_manager :: Manager where
  "shadow_manager = \<lparr>configDir = ''/home/u/.claude-switch'', configs = [named_b, identified_b]\<rparr>"

text \<open>
  A registry in which the second record was named after the identity of the first, as
  \<open>AddConfig\<close> allows (it compares the new name with names only), and its disk.
\<close>

definition work_record :: Config where
  "work_record =
     \<lparr>ID = ''u1'', Name = ''work'', Description = [], CreatedAt = 1,
      FilePath = ''/home/u/.claude-switch/configs/u1.json''\<rparr>"

definition alias_record :: Config where
  "alias_record =
     \<lparr>ID = ''u2'', Name = ''u1'', Description = [], CreatedAt = 2,
      FilePath = ''/home/u/.claude-switch/configs/u2.json''\<rparr>"

definition alias_manager :: Manager where
  "alias_manager = \<lparr>configDir = ''/home/u/.claude-switch'', configs = [work_record, alias_record]\<rparr>"

definition alias_world :: world where
  "alias_world =
     \<lparr>files = disk [(''/home/u/.claude-switch/configs/u1.json'', ''{}''),
                     (''/home/u/.claude-switch/configs/u2.json'', ''{}'')],
      faults = [], home = Some ''/home/u''\<rparr>"

text \<open>A disk with no files.\<close>

definition empty_world :: world where
  "empty_world = \<lparr>files = disk [], faults = [], home = Some ''/home/u''\<rparr>"

section \<open>Properties\<close>

text \<open>The definitions that evaluating an example unfolds.\<close>

lemmas os_defs = os_Stat_def os_ReadFile_def os_WriteFile_def os_Remove_def os_Rename_def
  os_MkdirAll_def os_IsNotExist_def next_fault_def put_file_def filepath_Join_def

lemmas json_defs = unmarshal_any_def unmarshal_map_def ValidateJSON_def ValidateClaudeSettings_def
  ValidateClaudeSettingsFile_def

lemmas config_defs = GetClaudeDir_def GetClaudeSettingsPath_def metadataPath_def copyFile_def
  saveConfigs_def loadConfigs_def AddConfig_def GetConfig_def ApplyConfig_def RemoveConfig_def

lemmas sample_defs = sample_decoder_def base_record_def sample_marshal_def sample_unmarshal_def
  sample_json_def disk_def empty_manager_def base_manager_def

subsection \<open>The file-system calls\<close>

lemma next_fault_frame:
  "next_fault w = (f, w') \<Longrightarrow> files w' = files w \<and> home w' = home w"
  by (auto simp: next_fault_def split: list.splits)

lemma os_WriteFile_ok:
  assumes "os_WriteFile p b w = (None, w')"
  shows "files w' = (files w)(p := File b)" and "home w' = home w"
  using assms
  by (auto simp: os_WriteFile_def put_file_def dest!: next_fault_frame
      split: node.splits prod.splits fault.splits)

lemma os_WriteFile_other:
  "q \<noteq> p \<Longrightarrow> files (snd (os_WriteFile p b w)) q = files w q"
  by (auto simp: os_WriteFile_def put_file_def dest!: next_fault_frame
      split: node.splits prod.splits fault.splits)

lemma copyFile_ok:
  assumes "copyFile src dst w = (None, w')"
  shows "\<exists>b. files w src = File b \<and> files w' = (files w)(dst := File b)" and "home w' = home w"
  using assms
  by (auto simp: copyFile_def os_ReadFile_def dest: os_WriteFile_ok
      split: node.splits sum.splits prod.splits option.splits)

lemma copyFile_other:
  assumes "q \<noteq> dst"
  shows "files (snd (copyFile src dst w)) q = files w q"
proof (cases "os_ReadFile src w")
  case (Inl e)
  then show ?thesis by (simp add: copyFile_def)
next
  case (Inr b)
  with os_WriteFile_other [OF assms, of b w] show ?thesis
    by (auto simp: copyFile_def split: prod.splits option.splits)
qed

subsection \<open>Validation\<close>



subsection \<open>Storage\<close>

text \<open>
  Claim C10. \<open>FileExists\<close> returns false only when the stat probe reports that the path
  does not exist. When the probe fails for any other reason, \<open>FileExists\<close> returns true, so
  \<open>SafeCopy\<close> from such a path passes its existence check and fails at the read that
  follows, with the read error and not with the source-not-found error.
\<close>

theorem FileExists_false_iff_not_exist:
  "(\<not> FileExists p w \<longleftrightarrow> os_Stat p w = Some ErrNotExist) \<and>
   (\<forall>e. os_Stat p w = Some e \<and> e \<noteq> ErrNotExist \<longrightarrow>
      FileExists p w \<and> SafeCopy p dst w = (Some (FailedToReadSourceFile e), w))"
  by (auto simp: FileExists_def os_IsNotExist_def os_Stat_def SafeCopy_def os_ReadFile_def
      split: node.splits)

theorem FileExists_false_iff_not_exist_witness:
  "os_Stat ''/locked/a.json'' locked_world = Some ErrPermission \<and>
   ErrPermission \<noteq> ErrNotExist \<and>
   FileExists ''/locked/a.json'' locked_world \<and>
   SafeCopy ''/locked/a.json'' ''/tmp/b.json'' locked_world =
     (Some (FailedToReadSourceFile ErrPermission), locked_world) \<and>
   os_Stat ''/gone'' locked_world = Some ErrNotExist \<and>
   \<not> FileExists ''/gone'' locked_world"
  using FileExists_false_iff_not_exist [of "''/locked/a.json''" locked_world "''/tmp/b.json''"]
    FileExists_false_iff_not_exist [of "''/gone''" locked_world]
  by (simp add: os_Stat_def locked_world_def)

subsection \<open>Apply\<close>

text \<open>
  Claim C3. For every record whose stored content passes validation, a successful apply
  leaves the target file byte-identical to the record's stored content; if a target file
  existed before the apply, the backup file afterwards is byte-identical to the target's
  content before the apply; if no target file existed, no backup is written (the backup
  path is as it was). The stored file of a record is not the backup slot.
\<close>

theorem ApplyConfig_success:
  assumes found: "GetConfig identifier m = Inr config"
    and stored: "files w (FilePath config) = File content"
    and target: "GetClaudeSettingsPath w = Inr settingsPath"
    and apart: "FilePath config \<noteq> settingsPath @ ''.backup''"
    and ok: "ApplyConfig J identifier m w = (None, w')"
  shows "ValidateClaudeSettings (decode J) content = None \<and>
         files w' settingsPath = File content \<and>
         (\<forall>old. files w settingsPath = File old \<longrightarrow>
            files w' (settingsPath @ ''.backup'') = File old) \<and>
         (files w settingsPath = Missing \<longrightarrow>
            files w' (settingsPath @ ''.backup'') = files w (settingsPath @ ''.backup''))"
proof -
  let ?backup = "settingsPath @ ''.backup''"
  let ?first = "if os_Stat settingsPath w = None then copyFile settingsPath ?backup w else (None, w)"
  from ok found target obtain w1 where
    valid: "ValidateClaudeSettingsFile (decode J) (FilePath config) w = None" and
    first: "?first = (None, w1)" and
    second: "copyFile (FilePath config) settingsPath w1 = (None, w')"
    by (auto simp: ApplyConfig_def Let_def split: option.splits prod.splits sum.splits if_splits)
  from valid stored have content_ok: "ValidateClaudeSettings (decode J) content = None"
    by (simp add: ValidateClaudeSettingsFile_def os_ReadFile_def)
  have w1_stored: "files w1 (FilePath config) = File content"
  proof (cases "os_Stat settingsPath w = None")
    case True
    with first have "copyFile settingsPath ?backup w = (None, w1)" by simp
    with copyFile_other [of "FilePath config" ?backup settingsPath w] apart stored
    show ?thesis by simp
  next
    case False
    with first stored show ?thesis by simp
  qed
  from copyFile_ok(1) [OF second] w1_stored
  have fin: "files w' = (files w1)(settingsPath := File content)" by auto
  have "files w' settingsPath = File content" using fin by simp
  moreover have "files w' ?backup = File old" if "files w settingsPath = File old" for old
  proof -
    from that have "os_Stat settingsPath w = None" by (simp add: os_Stat_def)
    with first have "copyFile settingsPath ?backup w = (None, w1)" by simp
    from copyFile_ok(1) [OF this] that have "files w1 ?backup = File old" by auto
    with fin show ?thesis by simp
  qed
  moreover have "files w' ?backup = files w ?backup" if "files w settingsPath = Missing"
  proof -
    from that have "os_Stat settingsPath w \<noteq> None" by (simp add: os_Stat_def)
    with first have "w1 = w" by simp
    with fin show ?thesis by simp
  qed
  ultimately show ?thesis using content_ok by blast
qed

theorem ApplyConfig_success_witness:
  "GetConfig ''base'' base_manager = Inr base_record \<and>
   files settings_world (FilePath base_record) = File ''{}'' \<and>
   GetClaudeSettingsPath settings_world = Inr ''/home/u/.claude/settings.json'' \<and>
   FilePath base_record \<noteq> ''/home/u/.claude/settings.json'' @ ''.backup'' \<and>
   fst (ApplyConfig sample_json ''base'' base_manager settings_world) = None \<and>
   files settings_world ''/home/u/.claude/settings.json'' = File ''[]'' \<and>
   files (snd (ApplyConfig sample_json ''base'' base_manager settings_world))
     ''/home/u/.claude/settings.json'' = File ''{}'' \<and>
   files (snd (ApplyConfig sample_json ''base'' base_manager settings_world))
     (''/home/u/.claude/settings.json'' @ ''.backup'') = File ''[]'' \<and>
   files fresh_world ''/home/u/.claude/settings.json'' = Missing \<and>
   fst (ApplyConfig sample_json ''base'' base_manager fresh_world) = None \<and>
   files (snd (ApplyConfig sample_json ''base'' base_manager fresh_world))
     ''/home/u/.claude/settings.json'' = File ''{}'' \<and>
   files (snd (ApplyConfig sample_json ''base'' base_manager fresh_world))
     (''/home/u/.claude/settings.json'' @ ''.backup'') = Missing"
proof -
  let ?s = "''/home/u/.claude/settings.json''"
  have found: "GetConfig ''base'' base_manager = Inr base_record"
    by (simp add: GetConfig_def base_manager_def base_record_def)
  have apart: "FilePath base_record \<noteq> ?s @ ''.backup''"
    by (simp add: base_record_def)
  have stored1: "files settings_world (FilePath base_record) = File ''{}''"
    by (simp add: settings_world_def disk_def base_record_def)
  have target1: "GetClaudeSettingsPath settings_world = Inr ?s"
    by (simp add: GetClaudeSettingsPath_def GetClaudeDir_def filepath_Join_def settings_world_def)
  have old1: "files settings_world ?s = File ''[]''"
    by (simp add: settings_world_def disk_def)
  have fst1: "fst (ApplyConfig sample_json ''base'' base_manager settings_world) = None"
    by (simp add: os_defs json_defs config_defs sample_defs settings_world_def)
  then have ok1: "ApplyConfig sample_json ''base'' base_manager settings_world =
      (None, snd (ApplyConfig sample_json ''base'' base_manager settings_world))"
    by (simp add: prod_eq_iff)
  have stored2: "files fresh_world (FilePath base_record) = File ''{}''"
    by (simp add: fresh_world_def disk_def base_record_def)
  have target2: "GetClaudeSettingsPath fresh_world = Inr ?s"
    by (simp add: GetClaudeSettingsPath_def GetClaudeDir_def filepath_Join_def fresh_world_def)
  have old2: "files fresh_world ?s = Missing" "files fresh_world (?s @ ''.backup'') = Missing"
    by (simp_all add: fresh_world_def disk_def)
  have fst2: "fst (ApplyConfig sample_json ''base'' base_manager fresh_world) = None"
    by (simp add: os_defs json_defs config_defs sample_defs fresh_world_def)
  then have ok2: "ApplyConfig sample_json ''base'' base_manager fresh_world =
      (None, snd (ApplyConfig sample_json ''base'' base_manager fresh_world))"
    by (simp add: prod_eq_iff)
  from ApplyConfig_success [OF found stored1 target1 apart ok1]
    ApplyConfig_success [OF found stored2 target2 apart ok2]
  show ?thesis
    using found apart stored1 target1 old1 old2 fst1 fst2 by (simp del: append.simps)
qed

text \<open>
  The storage package has the copy the next claim describes: when \<open>AtomicWrite\<close> or
  \<open>SafeCopy\<close> fails, the destination is as it was before the call.
\<close>

lemma os_MkdirAll_frame: "files (snd (os_MkdirAll d w)) = files w"
  by (auto simp: os_MkdirAll_def dest!: next_fault_frame split: prod.splits fault.splits)

lemma os_Rename_failed: "fst (os_Rename old new w) \<noteq> None \<Longrightarrow> files (snd (os_Rename old new w)) = files w"
  by (auto simp: os_Rename_def dest!: next_fault_frame split: node.splits prod.splits fault.splits)

lemma os_Remove_other: "q \<noteq> p \<Longrightarrow> files (snd (os_Remove p w)) q = files w q"
  by (auto simp: os_Remove_def put_file_def dest!: next_fault_frame
      split: node.splits prod.splits fault.splits)

lemma AtomicWrite_failure_keeps_target:
  assumes "fst (AtomicWrite filePath b w) \<noteq> None"
  shows "files (snd (AtomicWrite filePath b w)) filePath = files w filePath"
proof -
  let ?tmp = "filePath @ ''.tmp''"
  have ne: "filePath \<noteq> ?tmp" by simp
  obtain e1 w1 where d: "EnsureDir (filepath_Dir filePath) w = (e1, w1)" by fastforce
  then have f1: "files w1 = files w"
    using os_MkdirAll_frame [of "filepath_Dir filePath" w]
    by (auto simp: EnsureDir_def split: prod.splits option.splits)
  show ?thesis
  proof (cases e1)
    case (Some e)
    with d f1 show ?thesis by (simp add: AtomicWrite_def)
  next
    case None
    obtain e2 w2 where wr: "os_WriteFile ?tmp b w1 = (e2, w2)" by fastforce
    with os_WriteFile_other [OF ne, of b w1] have f2: "files w2 filePath = files w1 filePath"
      by simp
    show ?thesis
    proof (cases e2)
      case (Some e)
      with d None wr f1 f2 show ?thesis by (simp add: AtomicWrite_def Let_def)
    next
      case n2: None
      obtain e3 w3 where rn: "os_Rename ?tmp filePath w2 = (e3, w3)" by fastforce
      show ?thesis
      proof (cases e3)
        case (Some e)
        with rn os_Rename_failed [of ?tmp filePath w2] have "files w3 = files w2" by simp
        with os_Remove_other [OF ne, of w3] f1 f2 d None wr n2 rn Some show ?thesis
          by (simp add: AtomicWrite_def Let_def)
      next
        case n3: None
        with d None wr n2 rn assms show ?thesis by (simp add: AtomicWrite_def Let_def)
      qed
    qed
  qed
qed

lemma SafeCopy_failure_keeps_destination:
  assumes "fst (SafeCopy src dst w) \<noteq> None"
  shows "files (snd (SafeCopy src dst w)) dst = files w dst"
proof (cases "FileExists src w")
  case False
  then show ?thesis by (simp add: SafeCopy_def)
next
  case True
  show ?thesis
  proof (cases "os_ReadFile src w")
    case (Inl e)
    with True show ?thesis by (simp add: SafeCopy_def)
  next
    case (Inr data)
    with True assms have "fst (AtomicWrite dst data w) \<noteq> None"
      by (auto simp: SafeCopy_def split: prod.splits option.splits)
    from AtomicWrite_failure_keeps_target [OF this] True Inr show ?thesis
      by (auto simp: SafeCopy_def split: prod.splits option.splits)
  qed
qed

text \<open>
  Claim C2, where the code does otherwise. The claim has the copy onto the target go
  through \<open>SafeCopy\<close> (temporary file, then rename), so that a failed copy leaves the
  target's previous content untouched. \<open>ApplyConfig\<close> calls the package's own \<open>copyFile\<close>,
  which writes the target in place with \<^verbatim>\<open>os.WriteFile\<close>. On a disk that runs full the
  target is truncated, and the restore from the backup (one more in-place write) does not
  bring the previous content back: the settings file held \<^verbatim>\<open>[]\<close> before the call and is
  empty after it.
\<close>

theorem ApplyConfig_failed_copy_truncates_target:
  "files full_disk_world ''/home/u/.claude/settings.json'' = File ''[]'' \<and>
   fst (ApplyConfig sample_json ''base'' base_manager full_disk_world) =
     Some (FailedToApplyConfiguration (FailedToWriteDestinationFile ErrNoSpace)) \<and>
   files (snd (ApplyConfig sample_json ''base'' base_manager full_disk_world))
     ''/home/u/.claude/settings.json'' = File []"
  by (simp add: os_defs json_defs config_defs sample_defs full_disk_world_def)

subsection \<open>Add\<close>

lemma name_exists_iff: "name_exists name cs \<longleftrightarrow> (\<exists>c\<in>set cs. Name c = name)"
  by (induction cs) auto

text \<open>
  Claim C1, where the code does otherwise. The claim has a failed save of the metadata
  leave the registry as it was before the call, the in-memory collection included.
  \<open>AddConfig\<close> appends the new record before it saves and removes only the stored file
  when the save fails: on an empty registry whose metadata document cannot be written,
  the call fails, the stored file is gone, and the collection in memory holds the new
  record.
\<close>

theorem AddConfig_failed_save_keeps_record:
  "configs empty_manager = [] \<and>
   fst (AddConfig sample_json ''id1'' 0 ''/tmp/claude-settings-7.json'' ''base'' []
          empty_manager refused_save_world) =
     Inl (FailedToSaveConfigMetadata (FailedToWriteConfigMetadata ErrPermission)) \<and>
   configs (fst (snd (AddConfig sample_json ''id1'' 0 ''/tmp/claude-settings-7.json'' ''base'' []
          empty_manager refused_save_world))) = [base_record] \<and>
   files (snd (snd (AddConfig sample_json ''id1'' 0 ''/tmp/claude-settings-7.json'' ''base'' []
          empty_manager refused_save_world))) ''/home/u/.claude-switch/configs/id1.json'' = Missing"
  by (simp add: os_defs json_defs config_defs sample_defs refused_save_world_def)

text \<open>
  Claim C5, as amended. \<open>AddConfig\<close> validates the content before it looks for the name
  among the records. For every add call whose (non-empty) name is the name of an existing
  record: when the content passes validation the call fails with the duplicate-name
  error, otherwise it fails with the validator's error; either way the collection and the
  file system are as before.
\<close>

theorem AddConfig_duplicate_name:
  assumes "name \<noteq> []" and "\<exists>c\<in>set (configs m). Name c = name"
  shows "AddConfig J uuid now tempFile name description m w =
     (case ValidateClaudeSettingsFile (decode J) tempFile w of
        Some err \<Rightarrow> (Inl (InvalidConfigurationFile err), m, w)
      | None \<Rightarrow> (Inl (NameAlreadyExists name), m, w))"
  using assms by (simp add: AddConfig_def name_exists_iff split: option.splits)

theorem AddConfig_duplicate_name_witness:
  "''base'' \<noteq> [] \<and> (\<exists>c\<in>set (configs base_manager). Name c = ''base'') \<and>
   AddConfig sample_json ''id2'' 5 ''/tmp/claude-settings-7.json'' ''base'' [] base_manager
     edited_world = (Inl (NameAlreadyExists ''base''), base_manager, edited_world) \<and>
   AddConfig sample_json ''id2'' 5 ''/tmp/claude-settings-7.json'' ''base'' [] base_manager
     broken_edit_world =
     (Inl (InvalidConfigurationFile (InvalidJSONFormat SyntaxError)), base_manager,
      broken_edit_world)"
proof -
  have ne: "''base'' \<noteq> []" by simp
  have dup: "\<exists>c\<in>set (configs base_manager). Name c = ''base''"
    by (simp add: base_manager_def base_record_def)
  have v1: "ValidateClaudeSettingsFile (decode sample_json) ''/tmp/claude-settings-7.json''
      edited_world = None"
    by (simp add: os_defs json_defs sample_defs edited_world_def)
  have v2: "ValidateClaudeSettingsFile (decode sample_json) ''/tmp/claude-settings-7.json''
      broken_edit_world = Some (InvalidJSONFormat SyntaxError)"
    by (simp add: os_defs json_defs sample_defs broken_edit_world_def)
  from AddConfig_duplicate_name [OF ne dup, of sample_json "''id2''" 5
      "''/tmp/claude-settings-7.json''" "[]" edited_world]
    AddConfig_duplicate_name [OF ne dup, of sample_json "''id2''" 5
      "''/tmp/claude-settings-7.json''" "[]" broken_edit_world]
  show ?thesis using dup v1 v2 by simp
qed

text \<open>
  The claim as stated fails: the name \<^verbatim>\<open>base\<close> is taken and the content is not JSON, and
  the call fails with the validator's error, not with the duplicate-name error.
\<close>

theorem AddConfig_duplicate_name_invalid_content:
  "base_record \<in> set (configs base_manager) \<and> Name base_record = ''base'' \<and>
   AddConfig sample_json ''id2'' 5 ''/tmp/claude-settings-7.json'' ''base'' [] base_manager
     broken_edit_world =
     (Inl (InvalidConfigurationFile (InvalidJSONFormat SyntaxError)), base_manager,
      broken_edit_world)"
  by (simp add: os_defs json_defs config_defs sample_defs broken_edit_world_def)

text \<open>
  Claim C7, as amended. \<open>AddConfig\<close> compares the name with the empty string and does not
  trim it (the command that calls it trims the name first). For every add call whose name
  is the empty string, the call fails with the empty-name error, creates no record and
  writes no file.
\<close>

theorem AddConfig_empty_name:
  "AddConfig J uuid now tempFile [] description m w = (Inl ConfigNameEmpty, m, w)"
  by (simp add: AddConfig_def)

text \<open>
  The claim as stated fails: a name of two spaces is blank after trimming, and the call
  succeeds and records it.
\<close>

theorem AddConfig_blank_name_accepted:
  "fst (AddConfig sample_json ''id1'' 0 ''/tmp/claude-settings-7.json'' ''  '' []
          empty_manager edited_world) =
     Inr \<lparr>ID = ''id1'', Name = ''  '', Description = [], CreatedAt = 0,
          FilePath = ''/home/u/.claude-switch/configs/id1.json''\<rparr> \<and>
   map Name (configs (fst (snd (AddConfig sample_json ''id1'' 0 ''/tmp/claude-settings-7.json''
          ''  '' [] empty_manager edited_world)))) = [''  '']"
  by (simp add: os_defs json_defs config_defs sample_defs edited_world_def Let_def)

subsection \<open>Get\<close>

lemma find_config_None:
  "find_config i cs = None \<longleftrightarrow> (\<forall>c\<in>set cs. ID c \<noteq> i \<and> Name c \<noteq> i)"
  by (induction cs) auto

lemma find_config_skip:
  assumes "\<forall>d\<in>set pre. ID d \<noteq> i \<and> Name d \<noteq> i"
  shows "find_config i (pre @ rest) = find_config i rest"
  using assms by (induction pre) auto

lemma find_config_Some:
  "find_config i cs = Some c \<longleftrightarrow>
     (\<exists>pre post. cs = pre @ c # post \<and> (ID c = i \<or> Name c = i) \<and>
        (\<forall>d\<in>set pre. ID d \<noteq> i \<and> Name d \<noteq> i))"
proof
  show "find_config i cs = Some c \<Longrightarrow>
     \<exists>pre post. cs = pre @ c # post \<and> (ID c = i \<or> Name c = i) \<and>
        (\<forall>d\<in>set pre. ID d \<noteq> i \<and> Name d \<noteq> i)"
  proof (induction cs)
    case Nil
    then show ?case by simp
  next
    case (Cons x xs)
    show ?case
    proof (cases "ID x = i \<or> Name x = i")
      case True
      with Cons.prems have "x = c" by auto
      with True have "x # xs = [] @ c # xs \<and> (ID c = i \<or> Name c = i) \<and>
          (\<forall>d\<in>set []. ID d \<noteq> i \<and> Name d \<noteq> i)" by simp
      then show ?thesis by blast
    next
      case False
      with Cons.prems have "find_config i xs = Some c" by simp
      from Cons.IH [OF this] obtain pre post where
        "xs = pre @ c # post" "ID c = i \<or> Name c = i" "\<forall>d\<in>set pre. ID d \<noteq> i \<and> Name d \<noteq> i"
        by blast
      with False have "x # xs = (x # pre) @ c # post \<and> (ID c = i \<or> Name c = i) \<and>
          (\<forall>d\<in>set (x # pre). ID d \<noteq> i \<and> Name d \<noteq> i)" by simp
      then show ?thesis by blast
    qed
  qed
next
  assume "\<exists>pre post. cs = pre @ c # post \<and> (ID c = i \<or> Name c = i) \<and>
        (\<forall>d\<in>set pre. ID d \<noteq> i \<and> Name d \<noteq> i)"
  then obtain pre post where cs: "cs = pre @ c # post" and hit: "ID c = i \<or> Name c = i"
    and miss: "\<forall>d\<in>set pre. ID d \<noteq> i \<and> Name d \<noteq> i" by blast
  from find_config_skip [OF miss, of "c # post"] hit cs show "find_config i cs = Some c"
    by auto
qed

text \<open>
  Claim C6, as amended. \<open>GetConfig\<close> makes one pass over the collection and returns the
  first record whose identity or whose name equals the identifier; identity matches have
  no precedence over name matches of earlier records. It fails with the not-found error
  exactly when no record's identity or name equals the identifier, and with no other
  error.
\<close>

theorem GetConfig_first_match:
  "(GetConfig identifier m = Inl (ConfigNotFound identifier) \<longleftrightarrow>
      (\<forall>c\<in>set (configs m). ID c \<noteq> identifier \<and> Name c \<noteq> identifier)) \<and>
   (GetConfig identifier m = Inr config \<longleftrightarrow>
      (\<exists>pre post. configs m = pre @ config # post \<and>
         (ID config = identifier \<or> Name config = identifier) \<and>
         (\<forall>d\<in>set pre. ID d \<noteq> identifier \<and> Name d \<noteq> identifier))) \<and>
   (\<forall>e. GetConfig identifier m = Inl e \<longrightarrow> e = ConfigNotFound identifier)"
proof -
  have "GetConfig identifier m = Inl (ConfigNotFound identifier) \<longleftrightarrow>
      find_config identifier (configs m) = None"
    by (simp add: GetConfig_def split: option.splits)
  moreover have "GetConfig identifier m = Inr config \<longleftrightarrow>
      find_config identifier (configs m) = Some config"
    by (simp add: GetConfig_def split: option.splits)
  moreover have "\<forall>e. GetConfig identifier m = Inl e \<longrightarrow> e = ConfigNotFound identifier"
    by (auto simp: GetConfig_def split: option.splits)
  ultimately show ?thesis
    by (simp only: find_config_None find_config_Some) 
qed

text \<open>
  The claim as stated fails: the second record has the identity \<^verbatim>\<open>b\<close>, the first record
  has the name \<^verbatim>\<open>b\<close>, and a lookup of \<^verbatim>\<open>b\<close> returns the first record.
\<close>

theorem GetConfig_earlier_name_shadows_identity:
  "configs shadow_manager = [named_b, identified_b] \<and>
   ID identified_b = ''b'' \<and> Name named_b = ''b'' \<and> ID named_b = ''a'' \<and>
   GetConfig ''b'' shadow_manager = Inr named_b \<and>
   GetConfig ''b'' shadow_manager \<noteq> Inr identified_b"
  by (simp add: GetConfig_def shadow_manager_def named_b_def identified_b_def)

theorem GetConfig_first_match_witness:
  "GetConfig ''b'' shadow_manager = Inr named_b \<and>
   GetConfig ''c'' shadow_manager = Inr identified_b \<and>
   GetConfig ''d'' shadow_manager = Inl (ConfigNotFound ''d'')"
proof -
  have cs: "configs shadow_manager = [] @ named_b # [identified_b]"
    "configs shadow_manager = [named_b] @ identified_b # []"
    by (simp_all add: shadow_manager_def)
  have "\<exists>pre post. configs shadow_manager = pre @ named_b # post \<and>
      (ID named_b = ''b'' \<or> Name named_b = ''b'') \<and>
      (\<forall>d\<in>set pre. ID d \<noteq> ''b'' \<and> Name d \<noteq> ''b'')"
    using cs(1) by (intro exI [of _ "[]"] exI [of _ "[identified_b]"]) (simp add: named_b_def)
  moreover have "\<exists>pre post. configs shadow_manager = pre @ identified_b # post \<and>
      (ID identified_b = ''c'' \<or> Name identified_b = ''c'') \<and>
      (\<forall>d\<in>set pre. ID d \<noteq> ''c'' \<and> Name d \<noteq> ''c'')"
    using cs(2) by (intro exI [of _ "[named_b]"] exI [of _ "[]"])
      (simp add: named_b_def identified_b_def)
  moreover have "\<forall>c\<in>set (configs shadow_manager). ID c \<noteq> ''d'' \<and> Name c \<noteq> ''d''"
    by (simp add: shadow_manager_def named_b_def identified_b_def)
  ultimately show ?thesis
    using GetConfig_first_match [of "''b''" shadow_manager named_b]
      GetConfig_first_match [of "''c''" shadow_manager identified_b]
      GetConfig_first_match [of "''d''" shadow_manager] by blast
qed

subsection \<open>Remove\<close>

lemma remove_id_split:
  assumes "\<forall>d\<in>set pre. ID d \<noteq> ID c"
  shows "remove_id (ID c) (pre @ c # post) = pre @ post"
  using assms by (induction pre) auto

lemma os_Remove_gone:
  assumes "os_Remove p w = (err, w1)" and "err = None \<or> os_IsNotExist err"
  shows "files w1 = (files w)(p := Missing)"
  using assms
  by (auto simp: os_Remove_def os_IsNotExist_def put_file_def dest!: next_fault_frame
      split: node.splits prod.splits fault.splits)

lemma saveConfigs_ok:
  assumes "saveConfigs J m w = (None, w')"
  shows "\<exists>data. marshal J (configs m) = Some data \<and>
           files w' = (files w)(metadataPath m := File data) \<and> home w' = home w"
  using assms
  by (auto simp: saveConfigs_def dest: os_WriteFile_ok split: option.splits prod.splits)

text \<open>
  Claim C8, as amended. For every existing record that the identifier resolves to: after
  a successful remove the record's stored file no longer exists (the stored path is not
  the path of the metadata document, which the remove rewrites); a later lookup of the
  record's identity or of its name fails with the not-found error provided no other
  record of the collection carries either of them as its identity or its name; and a
  stored file that is already absent is no error: the outcome is then that of persisting
  the shortened collection.
\<close>

theorem RemoveConfig_existing_record:
  assumes found: "GetConfig identifier m = Inr config"
  shows
    "(\<forall>m' w'. RemoveConfig J identifier m w = (None, m', w') \<and>
        FilePath config \<noteq> metadataPath m \<longrightarrow>
        files w' (FilePath config) = Missing) \<and>
     (\<forall>m' w' pre post. RemoveConfig J identifier m w = (None, m', w') \<and>
        configs m = pre @ config # post \<and>
        (\<forall>d\<in>set (pre @ post). ID d \<notin> {ID config, Name config} \<and>
                               Name d \<notin> {ID config, Name config}) \<longrightarrow>
        configs m' = pre @ post \<and>
        GetConfig (ID config) m' = Inl (ConfigNotFound (ID config)) \<and>
        GetConfig (Name config) m' = Inl (ConfigNotFound (Name config))) \<and>
     (files w (FilePath config) = Missing \<longrightarrow>
        RemoveConfig J identifier m w =
          (case saveConfigs J (m\<lparr>configs := remove_id (ID config) (configs m)\<rparr>) w of
             (Some err, w2) \<Rightarrow>
               (Some (FailedToUpdateConfigMetadata err),
                m\<lparr>configs := remove_id (ID config) (configs m)\<rparr>, w2)
           | (None, w2) \<Rightarrow> (None, m\<lparr>configs := remove_id (ID config) (configs m)\<rparr>, w2)))"
proof -
  let ?m1 = "m\<lparr>configs := remove_id (ID config) (configs m)\<rparr>"
  have steps: "\<exists>err w1. os_Remove (FilePath config) w = (err, w1) \<and>
      (err = None \<or> os_IsNotExist err) \<and> m' = ?m1 \<and> saveConfigs J ?m1 w1 = (None, w')"
    if "RemoveConfig J identifier m w = (None, m', w')" for m' w'
    using that found
    by (auto simp: RemoveConfig_def Let_def split: prod.splits if_splits option.splits)
  have gone: "files w' (FilePath config) = Missing"
    if ok: "RemoveConfig J identifier m w = (None, m', w')"
      and apart: "FilePath config \<noteq> metadataPath m" for m' w'
  proof -
    from steps [OF ok] obtain err w1 where
      rm: "os_Remove (FilePath config) w = (err, w1)" "err = None \<or> os_IsNotExist err"
      and sv: "saveConfigs J ?m1 w1 = (None, w')" by blast
    from os_Remove_gone [OF rm] have "files w1 (FilePath config) = Missing" by simp
    moreover from saveConfigs_ok [OF sv] obtain data where
      "files w' = (files w1)(metadataPath ?m1 := File data)" by blast
    moreover have "metadataPath ?m1 = metadataPath m" by (simp add: metadataPath_def)
    ultimately show ?thesis using apart by simp
  qed
  have lookups: "configs m' = pre @ post \<and>
      GetConfig (ID config) m' = Inl (ConfigNotFound (ID config)) \<and>
      GetConfig (Name config) m' = Inl (ConfigNotFound (Name config))"
    if ok: "RemoveConfig J identifier m w = (None, m', w')"
      and cs: "configs m = pre @ config # post"
      and only: "\<forall>d\<in>set (pre @ post). ID d \<notin> {ID config, Name config} \<and>
                   Name d \<notin> {ID config, Name config}" for m' w' pre post
  proof -
    from steps [OF ok] have m': "m' = ?m1" by blast
    from only have "\<forall>d\<in>set pre. ID d \<noteq> ID config" by auto
    from remove_id_split [OF this, of post] cs m' have rest: "configs m' = pre @ post" by simp
    from only have "\<forall>c\<in>set (pre @ post). ID c \<noteq> ID config \<and> Name c \<noteq> ID config"
      and "\<forall>c\<in>set (pre @ post). ID c \<noteq> Name config \<and> Name c \<noteq> Name config" by auto
    then have "find_config (ID config) (pre @ post) = None"
      and "find_config (Name config) (pre @ post) = None"
      by (simp_all only: find_config_None)
    with rest show ?thesis by (simp add: GetConfig_def)
  qed
  have absent: "RemoveConfig J identifier m w =
      (case saveConfigs J ?m1 w of
         (Some err, w2) \<Rightarrow> (Some (FailedToUpdateConfigMetadata err), ?m1, w2)
       | (None, w2) \<Rightarrow> (None, ?m1, w2))"
    if "files w (FilePath config) = Missing"
    using that found
    by (simp add: RemoveConfig_def os_Remove_def os_IsNotExist_def Let_def)
  from gone lookups absent show ?thesis by blast
qed

text \<open>
  The claim as stated fails: the second record is named after the identity of the first;
  the first is removed, successfully, and a lookup of its identity returns the second.
\<close>

theorem RemoveConfig_identity_still_resolves:
  "GetConfig ''u1'' alias_manager = Inr work_record \<and> ID work_record = ''u1'' \<and>
   fst (RemoveConfig sample_json ''u1'' alias_manager alias_world) = None \<and>
   GetConfig ''u1'' (fst (snd (RemoveConfig sample_json ''u1'' alias_manager alias_world))) =
     Inr alias_record"
  by (simp add: os_defs config_defs sample_defs alias_manager_def alias_world_def
      work_record_def alias_record_def Let_def)

theorem RemoveConfig_existing_record_witness:
  "GetConfig ''base'' base_manager = Inr base_record \<and>
   fst (RemoveConfig sample_json ''base'' base_manager settings_world) = None \<and>
   FilePath base_record \<noteq> metadataPath base_manager \<and>
   files (snd (snd (RemoveConfig sample_json ''base'' base_manager settings_world)))
     (FilePath base_record) = Missing \<and>
   configs (fst (snd (RemoveConfig sample_json ''base'' base_manager settings_world))) = [] \<and>
   GetConfig ''id1'' (fst (snd (RemoveConfig sample_json ''base'' base_manager settings_world))) =
     Inl (ConfigNotFound ''id1'') \<and>
   GetConfig ''base'' (fst (snd (RemoveConfig sample_json ''base'' base_manager settings_world))) =
     Inl (ConfigNotFound ''base'') \<and>
   files empty_world (FilePath base_record) = Missing \<and>
   fst (RemoveConfig sample_json ''base'' base_manager empty_world) = None"
proof -
  let ?r = "RemoveConfig sample_json ''base'' base_manager settings_world"
  have found: "GetConfig ''base'' base_manager = Inr base_record"
    by (simp add: GetConfig_def base_manager_def base_record_def)
  have fst1: "fst ?r = None"
    by (simp add: os_defs config_defs sample_defs settings_world_def Let_def)
  then have ok: "?r = (None, fst (snd ?r), snd (snd ?r))"
    by (simp add: prod_eq_iff)
  have apart: "FilePath base_record \<noteq> metadataPath base_manager"
    by (simp add: metadataPath_def filepath_Join_def base_manager_def base_record_def)
  have cs: "configs base_manager = [] @ base_record # []"
    by (simp add: base_manager_def)
  have only: "\<forall>d\<in>set ([] @ []). ID d \<notin> {ID base_record, Name base_record} \<and>
      Name d \<notin> {ID base_record, Name base_record}" by simp
  have absent: "files empty_world (FilePath base_record) = Missing"
    by (simp add: empty_world_def disk_def)
  have saved: "fst (saveConfigs sample_json
      (base_manager\<lparr>configs := remove_id (ID base_record) (configs base_manager)\<rparr>)
      empty_world) = None"
    by (simp add: os_defs config_defs sample_defs empty_world_def)
  note removal = RemoveConfig_existing_record [OF found, of sample_json]
  have a: "files (snd (snd ?r)) (FilePath base_record) = Missing"
    by (rule removal [of settings_world, THEN conjunct1, rule_format, OF conjI [OF ok apart]])
  have b: "configs (fst (snd ?r)) = [] @ [] \<and>
      GetConfig (ID base_record) (fst (snd ?r)) = Inl (ConfigNotFound (ID base_record)) \<and>
      GetConfig (Name base_record) (fst (snd ?r)) = Inl (ConfigNotFound (Name base_record))"
    by (rule removal [of settings_world, THEN conjunct2, THEN conjunct1, rule_format,
          OF conjI [OF ok conjI [OF cs only]]])
  from removal [of empty_world, THEN conjunct2, THEN conjunct2, rule_format, OF absent] saved
  have c: "fst (RemoveConfig sample_json ''base'' base_manager empty_world) = None"
    by (auto split: prod.splits option.splits)
  have names: "ID base_record = ''id1''" "Name base_record = ''base''"
    by (simp_all add: base_record_def)
  from a b c found fst1 apart absent show ?thesis by (simp add: names)
qed

subsection \<open>Persistence\<close>



end
